theory Spec2Isabelle
  imports Main "HOL-Library.Sublist"
begin

section \<open>The update service of code-server (src/node/update.ts)\<close>

text \<open>
  The class \<open>UpdateService\<close> keeps one mutable field, \<open>this.state\<close>, and talks to
  the outside through collaborators: the request service, the file service, the
  promisified file-system module \<open>pfs\<close>, \<open>child_process.exec\<close>, the archive extractor
  and the log service. The embedding threads a record holding the state and the sequence
  of outside calls made so far; what each outside call answers is read from an
  environment \<open>env\<close>, so that every outcome (success or rejection) of every call is a
  branch of the model.
\<close>

subsection \<open>JavaScript values\<close>

text \<open>
  A value of type \<open>any\<close> (the \<open>context\<close> of a check). Numbers carry \<open>None\<close> for NaN.
\<close>

datatype jsval =
    JUndefined
  | JNull
  | JBool bool
  | JNum "int option"
  | JStr string
  | JObj

text \<open>ToBoolean, as \<open>!!context\<close> computes it.\<close>

fun truthy :: "jsval \<Rightarrow> bool" where
  "truthy JUndefined = False"
| "truthy JNull = False"
| "truthy (JBool b) = b"
| "truthy (JNum None) = False"
| "truthy (JNum (Some n)) = (n \<noteq> 0)"
| "truthy (JStr s) = (s \<noteq> [])"
| "truthy JObj = True"

text \<open>
  An \<open>Error\<close> object: its \<open>message\<close> property and what \<open>toString()\<close> answers.
\<close>

record js_error =
  message :: string
  toString :: string

text \<open>\<open>new Error(msg)\<close>; \<open>Error.prototype.toString\<close> with the name \<open>Error\<close>.\<close>

definition new_Error :: "string \<Rightarrow> js_error" where
  "new_Error msg =
     \<lparr>message = msg, toString = (if msg = [] then ''Error'' else ''Error: '' @ msg)\<rparr>"

text \<open>
  A promise, by its outcome. A promise is an object; tested without \<open>await\<close> it is
  truthy whatever it settles to.
\<close>

datatype 'a promise = Resolved 'a | Rejected js_error

fun promise_truthy :: "'a promise \<Rightarrow> bool" where
  "promise_truthy (Resolved x) = True"
| "promise_truthy (Rejected err) = True"

text \<open>\<open>p.catch(handler)\<close>, for a handler that returns a value.\<close>

fun catch :: "'a promise \<Rightarrow> (js_error \<Rightarrow> 'a) \<Rightarrow> 'a promise" where
  "catch (Resolved x) handler = Resolved x"
| "catch (Rejected err) handler = Resolved (handler err)"

subsection \<open>parseInt\<close>

text \<open>
  \<open>parseInt(string)\<close> with no radix: leading white space is skipped, one sign is read,
  a \<open>0x\<close> or \<open>0X\<close> prefix selects radix 16, and the longest run of digits of the radix
  is converted; no digit at all gives NaN (\<open>None\<close>). Strings are lists of 8-bit code
  units, so the white space is the part of ECMAScript's white space and line terminators
  below 256. The result carries the integer denoted by the digits; the source holds its
  rounding to a double. \<open>isLatestVersion\<close> compares two such numbers only in
  conjunction with the equality of the two strings, and equal strings denote equal
  numbers, so the rounding does not show in its result.
\<close>

definition isWhiteSpace :: "char \<Rightarrow> bool" where
  "isWhiteSpace c =
     (c = CHR 0x09 \<or> c = CHR 0x0A \<or> c = CHR 0x0B \<or> c = CHR 0x0C \<or> c = CHR 0x0D
      \<or> c = CHR 0x20 \<or> c = CHR 0xA0)"

definition digitValue :: "char \<Rightarrow> nat option" where
  "digitValue c =
     (let n = (of_char c :: nat) in
      if 48 \<le> n \<and> n \<le> 57 then Some (n - 48)
      else if 97 \<le> n \<and> n \<le> 122 then Some (n - 87)
      else if 65 \<le> n \<and> n \<le> 90 then Some (n - 55)
      else None)"

definition isRadixDigit :: "nat \<Rightarrow> char \<Rightarrow> bool" where
  "isRadixDigit R c = (case digitValue c of None \<Rightarrow> False | Some d \<Rightarrow> d < R)"

definition mathInt :: "nat \<Rightarrow> string \<Rightarrow> int" where
  "mathInt R Z = int (foldl (\<lambda>acc c. acc * R + (case digitValue c of None \<Rightarrow> 0 | Some d \<Rightarrow> d)) 0 Z)"

definition parseInt :: "string \<Rightarrow> int option" where
  "parseInt inputString =
     (let S = dropWhile isWhiteSpace inputString;
          sign = (if S \<noteq> [] \<and> hd S = CHR ''-'' then - 1 else (1::int));
          S1 = (if S \<noteq> [] \<and> (hd S = CHR ''+'' \<or> hd S = CHR ''-'') then tl S else S);
          hex = (take 2 S1 = ''0x'' \<or> take 2 S1 = ''0X'');
          R = (if hex then 16 else 10);
          S2 = (if hex then drop 2 S1 else S1);
          Z = takeWhile (isRadixDigit R) S2
      in if Z = [] then None else Some (sign * mathInt R Z))"

definition isNaN :: "int option \<Rightarrow> bool" where
  "isNaN n = (n = None)"

text \<open>\<open>a <= b\<close> on numbers: false as soon as one side is NaN.\<close>

fun num_le :: "int option \<Rightarrow> int option \<Rightarrow> bool" where
  "num_le (Some a) (Some b) = (a \<le> b)"
| "num_le a b = False"

subsection \<open>Update states (vs/platform/update/common/update)\<close>

datatype UpdateType = Setup | Archive | Snap

datatype StateType =
    Uninitialized
  | Idle
  | CheckingForUpdates
  | AvailableForDownload
  | Downloading
  | Downloaded
  | Updating
  | Ready

text \<open>The update carried by a state: the two fields this service fills in.\<close>

record update_info =
  version :: string
  productVersion :: string

datatype State =
    State_Uninitialized
  | State_Idle UpdateType "string option"
  | State_CheckingForUpdates jsval
  | State_AvailableForDownload update_info
  | State_Downloading update_info
  | State_Downloaded update_info
  | State_Updating update_info
  | State_Ready update_info

fun type_of :: "State \<Rightarrow> StateType" where
  "type_of State_Uninitialized = Uninitialized"
| "type_of (State_Idle t msg) = Idle"
| "type_of (State_CheckingForUpdates c) = CheckingForUpdates"
| "type_of (State_AvailableForDownload u) = AvailableForDownload"
| "type_of (State_Downloading u) = Downloading"
| "type_of (State_Downloaded u) = Downloaded"
| "type_of (State_Updating u) = Updating"
| "type_of (State_Ready u) = Ready"

text \<open>The release the feed answers: \<open>interface IUpdate { name: string }\<close>.\<close>

record IUpdate =
  name :: string

subsection \<open>The outside world\<close>

record exec_result =
  stdout :: string
  stderr :: string

text \<open>
  The response of a download request: its \<open>content-encoding\<close> header and its body.
  What is handed to the file service is the body as it is, or piped through gunzip.
\<close>

record response =
  content_encoding :: "string option"
  body :: string

datatype stream = Plain string | Gunzip string

text \<open>Every call that leaves the service, in the order it is made.\<close>

datatype event =
    Exec string
  | Request string
  | Mkdirp string
  | WriteFile string stream
  | Extract string string
  | Exists string
  | Unlink string
  | Move string string
  | Rimraf string
  | LogError js_error

text \<open>
  The environment: the values the runtime reports and the outcome of each outside call.
  \<open>feed\<close> is the outcome of the feed request followed by \<open>asJson\<close>. The
  functions of \<open>pfs\<close> (vs/base/node/pfs, the promisified \<open>fs\<close>) answer promises:
  \<open>mkdirp\<close>, \<open>unlink\<close> and \<open>move\<close> are awaited, \<open>rimraf\<close> is collected by
  \<open>Promise.all\<close>, and \<open>exists\<close> answers a promise of a boolean.
\<close>

record env =
  os_platform :: string
  os_arch :: string
  tmpdir :: string
  argv0 :: string
  codeServerVersion :: string
  url :: string
  exec_r :: "string \<Rightarrow> exec_result promise"
  feed :: "string \<Rightarrow> IUpdate option promise"
  request_r :: "string \<Rightarrow> response promise"
  mkdirp_r :: "string \<Rightarrow> unit promise"
  writeFile_r :: "string \<Rightarrow> stream \<Rightarrow> unit promise"
  extract_r :: "string \<Rightarrow> string \<Rightarrow> unit promise"
  exists_r :: "string \<Rightarrow> bool promise"
  unlink_r :: "string \<Rightarrow> unit promise"
  move_r :: "string \<Rightarrow> string \<Rightarrow> unit promise"
  rimraf_r :: "string \<Rightarrow> unit promise"

text \<open>The service: the current state and the calls made so far.\<close>

record svc =
  state :: State
  trace :: "event list"

definition emit :: "event \<Rightarrow> svc \<Rightarrow> svc" where
  "emit ev s = s\<lparr>trace := trace s @ [ev]\<rparr>"

definition setState :: "State \<Rightarrow> svc \<Rightarrow> svc" where
  "setState st s = s\<lparr>state := st\<rparr>"

subsection \<open>Checking for updates\<close>

definition getLatestVersion :: "env \<Rightarrow> svc \<Rightarrow> IUpdate option promise \<times> svc" where
  "getLatestVersion e s = (feed e (url e), emit (Request (url e)) s)"

text \<open>
  \<open>isLatestVersion\<close> is an async function: the model returns the promise it answers,
  by outcome, and the service after the calls it made.
\<close>

definition isLatestVersion :: "env \<Rightarrow> IUpdate option \<Rightarrow> svc \<Rightarrow> bool promise \<times> svc" where
  "isLatestVersion e latest s =
     (case (case latest of None \<Rightarrow> getLatestVersion e s | Some u \<Rightarrow> (Resolved (Some u), s)) of
        (Rejected err, s1) \<Rightarrow> (Rejected err, s1)
      | (Resolved None, s1) \<Rightarrow> (Resolved True, s1)
      | (Resolved (Some u), s1) \<Rightarrow>
          (let latestMajor = parseInt (name u);
               currentMajor = parseInt (codeServerVersion e)
           in (Resolved (\<not> isNaN latestMajor \<and> \<not> isNaN currentMajor \<and>
                         num_le currentMajor latestMajor \<and> name u = codeServerVersion e), s1)))"

definition onRequestError :: "js_error \<Rightarrow> bool \<Rightarrow> svc \<Rightarrow> svc" where
  "onRequestError error showNotification s =
     (let s1 = emit (LogError error) s;
          msg = (if showNotification
                 then Some (if message error \<noteq> [] then message error else toString error)
                 else None)
      in setState (State_Idle Archive msg) s1)"

text \<open>
  Line 68 tests \<open>this.isLatestVersion(update)\<close> without awaiting it: the operand of
  \<open>||\<close> is the promise.
\<close>

definition doCheckForUpdates :: "env \<Rightarrow> jsval \<Rightarrow> svc \<Rightarrow> svc" where
  "doCheckForUpdates e context s =
     (if type_of (state s) \<noteq> Idle then s
      else
        case getLatestVersion e (setState (State_CheckingForUpdates context) s) of
          (Rejected error, s1) \<Rightarrow> onRequestError error (truthy context) s1
        | (Resolved None, s1) \<Rightarrow> setState (State_Idle Archive None) s1
        | (Resolved (Some update), s1) \<Rightarrow>
            (case isLatestVersion e (Some update) s1 of
               (p, s2) \<Rightarrow>
                 if promise_truthy p then setState (State_Idle Archive None) s2
                 else setState (State_AvailableForDownload
                        \<lparr>version = name update, productVersion = name update\<rparr>) s2))"

subsection \<open>Release names\<close>

text \<open>\<open>haystack.indexOf(needle)\<close>: the first position of the needle, or -1.\<close>

fun indexOf :: "string \<Rightarrow> string \<Rightarrow> int" where
  "indexOf [] needle = (if needle = [] then 0 else - 1)"
| "indexOf (c # cs) needle =
     (if prefix needle (c # cs) then 0
      else (let i = indexOf cs needle in if i = - 1 then - 1 else i + 1))"

text \<open>
  The probe of the C library: \<open>exec\<close> rejects when the command cannot be run or exits
  with a code other than 0, and the handler of \<open>catch\<close> turns the rejection into a
  result whose \<open>stderr\<close> is the error's message.
\<close>

definition buildReleaseName :: "env \<Rightarrow> string \<Rightarrow> svc \<Rightarrow> string promise \<times> svc" where
  "buildReleaseName e release s =
     (case (if os_platform e = ''linux''
            then (case catch (exec_r e ''ldd --version'')
                         (\<lambda>error. \<lparr>stdout = [], stderr = message error\<rparr>) of
                    Rejected err \<Rightarrow> Rejected err
                  | Resolved result \<Rightarrow>
                      Resolved (if indexOf (stderr result) ''musl'' \<noteq> - 1
                                   \<or> indexOf (stdout result) ''musl'' \<noteq> - 1
                                then ''alpine'' else os_platform e),
                  emit (Exec ''ldd --version'') s)
            else (Resolved (os_platform e), s)) of
        (Rejected err, s1) \<Rightarrow> (Rejected err, s1)
      | (Resolved target, s1) \<Rightarrow>
          (let arch = (if os_arch e = ''x64'' then ''x86_64'' else os_arch e)
           in (Resolved (''code-server'' @ release @ ''-'' @ target @ ''-'' @ arch), s1)))"

subsection \<open>path.join\<close>

text \<open>
  Node's \<open>path.join\<close> and \<open>path.normalize\<close> for POSIX paths (the hosts releases
  are built for: linux, alpine, darwin): the arguments that are not empty are joined
  with a slash and the result is normalised. Normalising walks the segments between
  slashes: an empty segment and \<open>.\<close> are dropped, \<open>..\<close> removes the segment before it
  (or is kept, in a relative path, when there is none to remove), and a trailing slash
  is kept.
\<close>

fun splitSlash :: "string \<Rightarrow> string list" where
  "splitSlash [] = [[]]"
| "splitSlash (c # cs) =
     (if c = CHR ''/'' then [] # splitSlash cs
      else (case splitSlash cs of [] \<Rightarrow> [[c]] | seg # segs \<Rightarrow> (c # seg) # segs))"

fun joinSlash :: "string list \<Rightarrow> string" where
  "joinSlash [] = []"
| "joinSlash [seg] = seg"
| "joinSlash (seg # segs) = seg @ ''/'' @ joinSlash segs"

definition normalizeStep :: "bool \<Rightarrow> string list \<Rightarrow> string \<Rightarrow> string list" where
  "normalizeStep allowAboveRoot res seg =
     (if seg = [] \<or> seg = ''.'' then res
      else if seg = ''..'' then
        (if res \<noteq> [] \<and> last res \<noteq> ''..'' then butlast res
         else if allowAboveRoot then res @ [''..'']
         else res)
      else res @ [seg])"

definition normalizeString :: "string \<Rightarrow> bool \<Rightarrow> string" where
  "normalizeString path allowAboveRoot =
     joinSlash (foldl (normalizeStep allowAboveRoot) [] (splitSlash path))"

definition path_normalize :: "string \<Rightarrow> string" where
  "path_normalize path =
     (if path = [] then ''.''
      else
        let isAbsolute = (hd path = CHR ''/'');
            trailingSeparator = (last path = CHR ''/'');
            p = normalizeString path (\<not> isAbsolute)
        in if p = [] then (if isAbsolute then ''/'' else if trailingSeparator then ''./'' else ''.'')
           else (let p1 = (if trailingSeparator then p @ ''/'' else p)
                 in if isAbsolute then ''/'' @ p1 else p1))"

definition path_join :: "string list \<Rightarrow> string" where
  "path_join args =
     (let parts = filter (\<lambda>arg. arg \<noteq> []) args
      in if parts = [] then ''.'' else path_normalize (joinSlash parts))"

subsection \<open>Downloading an update\<close>

text \<open>
  The body of the \<open>try\<close> block of \<open>doDownloadUpdate\<close> (lines 101 to 119): the error it
  throws, if any, and the service at that point. Line 114 negates the promise of
  \<open>pfs.exists\<close> without awaiting it.
\<close>

definition tryDownload ::
  "env \<Rightarrow> update_info \<Rightarrow> string \<Rightarrow> string \<Rightarrow> string \<Rightarrow> string \<Rightarrow> string \<Rightarrow> svc
     \<Rightarrow> js_error option \<times> svc" where
  "tryDownload e upd target releaseName dl_url downloadPath extractPath s =
     (let s1 = emit (Mkdirp (tmpdir e)) s in
      case mkdirp_r e (tmpdir e) of
        Rejected err \<Rightarrow> (Some err, s1)
      | Resolved u1 \<Rightarrow>
     (let s2 = emit (Request dl_url) s1 in
      case request_r e dl_url of
        Rejected err \<Rightarrow> (Some err, s2)
      | Resolved context \<Rightarrow>
     (let strm = (if target \<noteq> ''darwin'' \<and> content_encoding context \<noteq> Some ''gzip''
                  then Gunzip (body context) else Plain (body context));
          s3 = emit (WriteFile downloadPath strm) s2 in
      case writeFile_r e downloadPath strm of
        Rejected err \<Rightarrow> (Some err, s3)
      | Resolved u2 \<Rightarrow>
     (let s4 = emit (Extract downloadPath extractPath) s3 in
      case extract_r e downloadPath extractPath of
        Rejected err \<Rightarrow> (Some err, s4)
      | Resolved u3 \<Rightarrow>
     (let newBinary = path_join [extractPath, releaseName, ''code-server''];
          s5 = emit (Exists newBinary) s4 in
      if \<not> promise_truthy (exists_r e newBinary)
      then (Some (new_Error ''No code-server binary in extracted archive''), s5)
      else
     (let s6 = emit (Unlink (argv0 e)) s5 in
      case unlink_r e (argv0 e) of
        Rejected err \<Rightarrow> (Some err, s6)
      | Resolved u4 \<Rightarrow>
     (let s7 = emit (Move newBinary (argv0 e)) s6 in
      case move_r e newBinary (argv0 e) of
        Rejected err \<Rightarrow> (Some err, s7)
      | Resolved u5 \<Rightarrow> (None, setState (State_Ready upd) s7))))))))"

text \<open>
  \<open>Promise.all\<close> over the two \<open>rimraf\<close> calls: both calls are made before either
  outcome is looked at.
\<close>

definition doDownloadUpdate :: "env \<Rightarrow> update_info \<Rightarrow> svc \<Rightarrow> unit promise \<times> svc" where
  "doDownloadUpdate e upd s =
     (let target = os_platform e in
      case buildReleaseName e (version upd) (setState (State_Updating upd) s) of
        (Rejected err, s1) \<Rightarrow> (Rejected err, s1)
      | (Resolved releaseName, s1) \<Rightarrow>
          (let dl_url = ''https://github.com/cdr/code-server/releases/download/''
                 @ version upd @ ''/'' @ releaseName
                 @ ''.'' @ (if target = ''darwin'' then ''zip'' else ''tar.gz'');
               downloadPath = path_join [tmpdir e, version upd @ ''-archive''];
               extractPath = path_join [tmpdir e, version upd];
               s2 = (case tryDownload e upd target releaseName dl_url downloadPath extractPath s1 of
                       (None, s') \<Rightarrow> s'
                     | (Some error, s') \<Rightarrow> onRequestError error True s');
               s3 = emit (Rimraf extractPath) (emit (Rimraf downloadPath) s2)
           in (case rimraf_r e downloadPath of
                 Rejected err \<Rightarrow> Rejected err
               | Resolved u1 \<Rightarrow> rimraf_r e extractPath,
               s3)))"

subsection \<open>Observations and sample hosts\<close>

text \<open>The \<open>error\<close> field of an idle state; no other state has one.\<close>

fun lastError :: "State \<Rightarrow> string option" where
  "lastError (State_Idle t msg) = msg"
| "lastError st = None"

text \<open>
  What the probe reports, read as the service reads it: the two output streams of a
  probe that ran, the error's message of one that failed. \<open>sublist\<close> is the contiguous
  substring relation.
\<close>

definition musl_detected :: "env \<Rightarrow> bool" where
  "musl_detected e =
     (case exec_r e ''ldd --version'' of
        Resolved result \<Rightarrow> sublist ''musl'' (stderr result) \<or> sublist ''musl'' (stdout result)
      | Rejected error \<Rightarrow> sublist ''musl'' (message error))"

text \<open>
  A glibc Linux host on which every outside call succeeds; the feed announces 9.9.9
  while 1.0.0 is running.
\<close>

definition linux_host :: env where
  "linux_host =
     \<lparr>os_platform = ''linux'', os_arch = ''x64'', tmpdir = ''/tmp/code-server'',
      argv0 = ''/usr/local/bin/code-server'', codeServerVersion = ''1.0.0'',
      url = ''https://api.github.com/repos/cdr/code-server/releases/latest'',
      exec_r = (\<lambda>cmd. Resolved \<lparr>stdout = ''ldd (GNU libc) 2.28'', stderr = []\<rparr>),
      feed = (\<lambda>u. Resolved (Some \<lparr>name = ''9.9.9''\<rparr>)),
      request_r = (\<lambda>u. Resolved \<lparr>content_encoding = None, body = ''archive''\<rparr>),
      mkdirp_r = (\<lambda>p. Resolved ()),
      writeFile_r = (\<lambda>p strm. Resolved ()),
      extract_r = (\<lambda>src dst. Resolved ()),
      exists_r = (\<lambda>p. Resolved True),
      unlink_r = (\<lambda>p. Resolved ()),
      move_r = (\<lambda>src dst. Resolved ()),
      rimraf_r = (\<lambda>p. Resolved ())\<rparr>"

text \<open>
  The same host when the extracted archive holds no binary: \<open>exists\<close> resolves to
  false, and a move of the missing file is rejected.
\<close>

definition host_without_binary :: env where
  "host_without_binary =
     linux_host\<lparr>exists_r := (\<lambda>p. Resolved False),
                move_r := (\<lambda>src dst. Rejected (new_Error ''ENOENT: no such file or directory''))\<rparr>"

text \<open>An Alpine host: \<open>ldd --version\<close> exits with code 1 there, so \<open>exec\<close> rejects.\<close>

definition alpine_host :: env where
  "alpine_host =
     linux_host\<lparr>exec_r :=
       (\<lambda>cmd. Rejected (new_Error ''Command failed: ldd --version musl libc (x86_64)''))\<rparr>"

text \<open>A host with no \<open>ldd\<close> at all.\<close>

definition host_without_ldd :: env where
  "host_without_ldd =
     linux_host\<lparr>exec_r :=
       (\<lambda>cmd. Rejected (new_Error ''Command failed: ldd --version /bin/sh: ldd: not found''))\<rparr>"

definition idle_service :: svc where
  "idle_service = \<lparr>state = State_Idle Archive None, trace = []\<rparr>"

definition release_999 :: update_info where
  "release_999 = \<lparr>version = ''9.9.9'', productVersion = ''9.9.9''\<rparr>"

text \<open>The calls of an attempt for 9.9.9 on \<open>linux_host\<close>, in order.\<close>

definition successful_attempt_calls :: "event list" where
  "successful_attempt_calls =
     [Exec ''ldd --version'', Mkdirp ''/tmp/code-server'',
      Request ''https://github.com/cdr/code-server/releases/download/9.9.9/code-server9.9.9-linux-x86_64.tar.gz'',
      WriteFile ''/tmp/code-server/9.9.9-archive'' (Gunzip ''archive''),
      Extract ''/tmp/code-server/9.9.9-archive'' ''/tmp/code-server/9.9.9'',
      Exists ''/tmp/code-server/9.9.9/code-server9.9.9-linux-x86_64/code-server'',
      Unlink ''/usr/local/bin/code-server'',
      Move ''/tmp/code-server/9.9.9/code-server9.9.9-linux-x86_64/code-server''
           ''/usr/local/bin/code-server'',
      Rimraf ''/tmp/code-server/9.9.9-archive'',
      Rimraf ''/tmp/code-server/9.9.9'']"

section \<open>Properties\<close>

subsection \<open>Traces\<close>

lemma trace_emit: "trace (emit ev s) = trace s @ [ev]"
  by (simp add: emit_def)

lemma trace_setState: "trace (setState st s) = trace s"
  by (simp add: setState_def)

lemma trace_onRequestError: "trace (onRequestError error b s) = trace s @ [LogError error]"
  by (simp add: onRequestError_def Let_def trace_emit trace_setState)

lemmas run_defs =
  doDownloadUpdate_def buildReleaseName_def tryDownload_def path_join_def
  path_normalize_def normalizeString_def normalizeStep_def emit_def setState_def
  onRequestError_def new_Error_def Let_def

lemmas parseInt_defs =
  parseInt_def isWhiteSpace_def isRadixDigit_def digitValue_def mathInt_def

subsection \<open>The check\<close>

text \<open>
  Whatever release the feed answers, a check that starts from Idle ends in Idle with no
  message: the promise tested on line 68 is truthy, so the \<open>else\<close> branch is never taken.
\<close>

lemma check_never_offers:
  "type_of (state s) = Idle \<Longrightarrow> feed e (url e) = Resolved (Some u) \<Longrightarrow>
   state (doCheckForUpdates e context s) = State_Idle Archive None"
  by (simp add: doCheckForUpdates_def getLatestVersion_def isLatestVersion_def setState_def Let_def)

text \<open>
  C1. A successful check from Idle that fetches a release whose name differs from the
  running version is to end in AvailableForDownload carrying that name. The code does
  not do so: on a host that runs 1.0.0 and whose feed announces 9.9.9, the check makes its
  one request and ends in Idle with no message.
\<close>

theorem check_with_newer_release_ends_idle:
  "feed linux_host (url linux_host) = Resolved (Some \<lparr>name = ''9.9.9''\<rparr>)
   \<and> codeServerVersion linux_host = ''1.0.0''
   \<and> doCheckForUpdates linux_host JUndefined idle_service
       = \<lparr>state = State_Idle Archive None,
          trace = [Request ''https://api.github.com/repos/cdr/code-server/releases/latest'']\<rparr>"
  by (simp add: doCheckForUpdates_def getLatestVersion_def isLatestVersion_def setState_def
        emit_def Let_def linux_host_def idle_service_def)

text \<open>
  C2, as amended. When the release name and the running version are the same string,
  \<open>isLatestVersion\<close> resolves to true exactly when that string starts with an integer
  that \<open>parseInt\<close> can read; when it does not, it resolves to false.
\<close>

theorem isLatestVersion_equal_strings:
  "name u = codeServerVersion e \<Longrightarrow>
   fst (isLatestVersion e (Some u) s) = Resolved (parseInt (name u) \<noteq> None)"
  by (cases "parseInt (codeServerVersion e)") (simp_all add: isLatestVersion_def isNaN_def Let_def)

theorem isLatestVersion_equal_strings_witness:
  "name \<lparr>name = ''2.1523-vsc1.38.1''\<rparr>
     = codeServerVersion (linux_host\<lparr>codeServerVersion := ''2.1523-vsc1.38.1''\<rparr>)
   \<and> fst (isLatestVersion (linux_host\<lparr>codeServerVersion := ''2.1523-vsc1.38.1''\<rparr>)
            (Some \<lparr>name = ''2.1523-vsc1.38.1''\<rparr>) idle_service) = Resolved True"
  using isLatestVersion_equal_strings
          [of "\<lparr>name = ''2.1523-vsc1.38.1''\<rparr>"
              "linux_host\<lparr>codeServerVersion := ''2.1523-vsc1.38.1''\<rparr>" idle_service]
  by (simp add: parseInt_defs)

text \<open>
  C2 as stated fails: the release name \<open>v2\<close> on a host that runs \<open>v2\<close> is the same
  string, and \<open>isLatestVersion\<close> resolves to false.
\<close>

theorem isLatestVersion_equal_unparsed:
  "name \<lparr>name = ''v2''\<rparr> = codeServerVersion (linux_host\<lparr>codeServerVersion := ''v2''\<rparr>)
   \<and> fst (isLatestVersion (linux_host\<lparr>codeServerVersion := ''v2''\<rparr>)
            (Some \<lparr>name = ''v2''\<rparr>) idle_service) = Resolved False"
  by (simp add: isLatestVersion_def isNaN_def Let_def parseInt_defs)

text \<open>
  C6. A check called while the state's type is not Idle returns the service as it was:
  the state is unchanged and no call (so no request) is added to the trace.
\<close>

theorem check_not_idle_is_noop:
  "type_of (state s) \<noteq> Idle \<Longrightarrow> doCheckForUpdates e context s = s"
  by (simp add: doCheckForUpdates_def)

theorem check_not_idle_is_noop_witness:
  "type_of (state \<lparr>state = State_CheckingForUpdates JUndefined, trace = []\<rparr>) \<noteq> Idle
   \<and> doCheckForUpdates linux_host (JBool True)
        \<lparr>state = State_CheckingForUpdates JUndefined, trace = []\<rparr>
       = \<lparr>state = State_CheckingForUpdates JUndefined, trace = []\<rparr>"
  using check_not_idle_is_noop
          [of "\<lparr>state = State_CheckingForUpdates JUndefined, trace = []\<rparr>" linux_host "JBool True"]
  by simp

text \<open>
  C7. The error handler logs the error and moves to Idle. When \<open>notifyUser\<close> is false the
  idle state carries no message. When it is true the idle state carries the message of
  the error, or what \<open>toString()\<close> answers for the error when its message is empty. So
  a message is attached if and only if \<open>notifyUser\<close> is true.
\<close>

theorem onRequestError_logs_and_idles:
  "trace (onRequestError error notifyUser s) = trace s @ [LogError error]
   \<and> state (onRequestError error notifyUser s)
       = State_Idle Archive
           (if notifyUser
            then Some (if message error = [] then toString error else message error)
            else None)
   \<and> type_of (state (onRequestError error notifyUser s)) = Idle
   \<and> (lastError (state (onRequestError error notifyUser s)) \<noteq> None) = notifyUser"
  by (simp add: onRequestError_def emit_def setState_def Let_def)

theorem onRequestError_logs_and_idles_witness:
  "trace (onRequestError (new_Error ''timeout'') False idle_service)
     = [LogError (new_Error ''timeout'')]
   \<and> state (onRequestError (new_Error ''timeout'') False idle_service) = State_Idle Archive None
   \<and> state (onRequestError (new_Error ''timeout'') True idle_service)
       = State_Idle Archive (Some ''timeout'')
   \<and> state (onRequestError (new_Error []) True idle_service)
       = State_Idle Archive (Some ''Error'')
   \<and> state (onRequestError \<lparr>message = [], toString = ''ENOENT: no such file''\<rparr> True idle_service)
       = State_Idle Archive (Some ''ENOENT: no such file'')"
  using onRequestError_logs_and_idles [of "new_Error ''timeout''" False idle_service]
    onRequestError_logs_and_idles [of "new_Error ''timeout''" True idle_service]
    onRequestError_logs_and_idles [of "new_Error []" True idle_service]
    onRequestError_logs_and_idles
      [of "\<lparr>message = [], toString = ''ENOENT: no such file''\<rparr>" True idle_service]
  by (simp add: new_Error_def idle_service_def)

subsection \<open>Release names\<close>

lemma indexOf_ge: "- 1 \<le> indexOf h n"
  by (induction h) (auto simp: Let_def)

text \<open>\<open>indexOf\<close> finds a needle exactly when it is a contiguous part of the haystack.\<close>

lemma indexOf_sublist: "(indexOf h n \<noteq> - 1) = sublist n h"
proof (induction h)
  case Nil
  show ?case by simp
next
  case (Cons c cs)
  have "indexOf cs n + 1 \<noteq> - 1" using indexOf_ge [of cs n] by arith
  with Cons show ?case by (auto simp: Let_def sublist_Cons_right)
qed

text \<open>
  The promise of \<open>buildReleaseName\<close> is never rejected: the rejection of the probe is
  caught before it is awaited.
\<close>

lemma buildReleaseName_value:
  "buildReleaseName e v s =
     (Resolved (''code-server'' @ v @ ''-''
        @ (if os_platform e = ''linux'' \<and> musl_detected e then ''alpine'' else os_platform e)
        @ ''-'' @ (if os_arch e = ''x64'' then ''x86_64'' else os_arch e)),
      if os_platform e = ''linux'' then emit (Exec ''ldd --version'') s else s)"
  by (cases "exec_r e ''ldd --version''")
     (simp_all add: buildReleaseName_def musl_detected_def indexOf_sublist Let_def
        del: indexOf.simps)

text \<open>
  C5, as amended. For every version string, \<open>buildReleaseName\<close> answers
  \<open>code-server<version>-<platform>-<arch>\<close>, with no hyphen between the product name and
  the version. The platform is the host's, replaced by \<open>alpine\<close> exactly when the host is
  linux and the probe's output (its stdout or stderr, or the message of its failure)
  contains \<open>musl\<close>; the architecture is the runtime's, with \<open>x64\<close> written \<open>x86_64\<close>.
\<close>

theorem buildReleaseName_format:
  "fst (buildReleaseName e v s) =
     Resolved (''code-server'' @ v @ ''-''
        @ (if os_platform e = ''linux'' \<and> musl_detected e then ''alpine'' else os_platform e)
        @ ''-'' @ (if os_arch e = ''x64'' then ''x86_64'' else os_arch e))"
  by (simp add: buildReleaseName_value)

theorem buildReleaseName_format_witness:
  "fst (buildReleaseName linux_host ''1.2.3'' idle_service)
     = Resolved ''code-server1.2.3-linux-x86_64''
   \<and> fst (buildReleaseName (linux_host\<lparr>os_platform := ''darwin'', os_arch := ''arm64''\<rparr>)
            ''1.2.3'' idle_service)
     = Resolved ''code-server1.2.3-darwin-arm64''"
  using buildReleaseName_format [of linux_host "''1.2.3''" idle_service]
    buildReleaseName_format
      [of "linux_host\<lparr>os_platform := ''darwin'', os_arch := ''arm64''\<rparr>" "''1.2.3''" idle_service]
  by (simp add: musl_detected_def linux_host_def sublist_Cons_right)

text \<open>
  C5 as stated fails: on a darwin x64 host the name for 1.2.3 is not
  \<open>code-server-1.2.3-darwin-x86_64\<close>; the product name and the version are not
  separated.
\<close>

theorem buildReleaseName_no_hyphen_after_product:
  "fst (buildReleaseName (linux_host\<lparr>os_platform := ''darwin''\<rparr>) ''1.2.3'' idle_service)
     \<noteq> Resolved (''code-server'' @ ''-'' @ ''1.2.3'' @ ''-'' @ ''darwin'' @ ''-'' @ ''x86_64'')
   \<and> fst (buildReleaseName (linux_host\<lparr>os_platform := ''darwin''\<rparr>) ''1.2.3'' idle_service)
     = Resolved ''code-server1.2.3-darwin-x86_64''"
  by (simp add: buildReleaseName_def linux_host_def)

text \<open>
  C9, as amended. Whatever the probe does, \<open>buildReleaseName\<close> answers a release name.
  When the probe fails, the message of the failure is read in place of its stderr: the
  platform keeps the host's label unless the host is linux and that message contains
  \<open>musl\<close>, in which case it is \<open>alpine\<close>.
\<close>

theorem buildReleaseName_probe_failure:
  "(\<exists>releaseName. fst (buildReleaseName e v s) = Resolved releaseName)
   \<and> (exec_r e ''ldd --version'' = Rejected error \<longrightarrow>
        fst (buildReleaseName e v s) =
          Resolved (''code-server'' @ v @ ''-''
            @ (if os_platform e = ''linux'' \<and> sublist ''musl'' (message error)
               then ''alpine'' else os_platform e)
            @ ''-'' @ (if os_arch e = ''x64'' then ''x86_64'' else os_arch e)))"
  by (simp add: buildReleaseName_value musl_detected_def)

theorem buildReleaseName_probe_failure_witness:
  "exec_r host_without_ldd ''ldd --version''
     = Rejected (new_Error ''Command failed: ldd --version /bin/sh: ldd: not found'')
   \<and> fst (buildReleaseName host_without_ldd ''2.0'' idle_service)
       = Resolved ''code-server2.0-linux-x86_64''"
  using buildReleaseName_probe_failure
          [of host_without_ldd "''2.0''" idle_service
              "new_Error ''Command failed: ldd --version /bin/sh: ldd: not found''"]
  by (simp add: host_without_ldd_def linux_host_def new_Error_def sublist_Cons_right)

text \<open>
  C9 as stated fails: on an Alpine host the probe fails, the message of the failure
  names musl, and the label is \<open>alpine\<close>, not the default.
\<close>

theorem probe_failure_naming_musl:
  "exec_r alpine_host ''ldd --version''
     = Rejected (new_Error ''Command failed: ldd --version musl libc (x86_64)'')
   \<and> fst (buildReleaseName alpine_host ''2.0'' idle_service)
       = Resolved ''code-server2.0-alpine-x86_64''
   \<and> fst (buildReleaseName alpine_host ''2.0'' idle_service)
       \<noteq> Resolved ''code-server2.0-linux-x86_64''"
  by (simp add: buildReleaseName_def alpine_host_def linux_host_def new_Error_def Let_def)

subsection \<open>The download\<close>

lemma tryDownload_extends:
  "\<exists>evs. trace (snd (tryDownload e upd target rn u dp ep s)) = trace s @ evs"
  by (simp add: tryDownload_def trace_emit trace_setState Let_def split: promise.split)

text \<open>
  Inside the \<open>try\<close> block a move is the last call, its target is the running executable,
  and the call just before it is the unlink of that path, which succeeded.
\<close>

lemma tryDownload_move:
  assumes "trace (snd (tryDownload e upd t rn u dp ep s)) = trace s @ pre @ Move src dst # post"
  shows "dst = argv0 e \<and> (\<exists>pre'. pre = pre' @ [Unlink (argv0 e)])
         \<and> unlink_r e (argv0 e) = Resolved () \<and> post = []"
  using assms
  by (auto simp: tryDownload_def Let_def trace_emit trace_setState Cons_eq_append_conv
           split: promise.splits if_splits)

lemma buildReleaseName_no_move:
  "\<exists>rn s1 evs. buildReleaseName e v s = (Resolved rn, s1) \<and> trace s1 = trace s @ evs
      \<and> Move src dst \<notin> set evs"
  by (simp add: buildReleaseName_value trace_emit)

text \<open>The function once the release name is known, with nothing else evaluated.\<close>

lemma doDownloadUpdate_unfold:
  assumes b: "buildReleaseName e (version upd) (setState (State_Updating upd) s) = (Resolved rn, s1)"
  shows "snd (doDownloadUpdate e upd s) =
      emit (Rimraf (path_join [tmpdir e, version upd]))
        (emit (Rimraf (path_join [tmpdir e, version upd @ ''-archive'']))
          (case tryDownload e upd (os_platform e) rn
                  (''https://github.com/cdr/code-server/releases/download/''
                     @ version upd @ ''/'' @ rn
                     @ ''.'' @ (if os_platform e = ''darwin'' then ''zip'' else ''tar.gz''))
                  (path_join [tmpdir e, version upd @ ''-archive''])
                  (path_join [tmpdir e, version upd]) s1 of
             (None, s') \<Rightarrow> s'
           | (Some error, s') \<Rightarrow> onRequestError error True s'))"
  unfolding doDownloadUpdate_def Let_def b prod.case promise.case snd_conv
  by (rule refl)

text \<open>
  After the \<open>try\<close> block: the calls of the block, then at most the logging of the caught
  error, then the two removals.
\<close>

lemma finish_shape:
  "\<exists>c l. trace (snd (tryDownload e upd t rn u dp' ep' s1)) = trace s1 @ c
     \<and> trace (emit (Rimraf ep) (emit (Rimraf dp)
            (case tryDownload e upd t rn u dp' ep' s1 of
               (None, s') \<Rightarrow> s'
             | (Some error, s') \<Rightarrow> onRequestError error True s')))
         = trace s1 @ c @ l
     \<and> Move src dst \<notin> set l
     \<and> (\<exists>l'. l = l' @ [Rimraf dp, Rimraf ep])"
proof -
  obtain r s2 where t: "tryDownload e upd t rn u dp' ep' s1 = (r, s2)"
    by (cases "tryDownload e upd t rn u dp' ep' s1")
  obtain c where c: "trace s2 = trace s1 @ c"
    using tryDownload_extends [of e upd t rn u dp' ep' s1] t by auto
  show ?thesis
  proof (cases r)
    case None
    then show ?thesis
      by (intro exI [where x = c] exI [where x = "[Rimraf dp, Rimraf ep]"])
         (simp add: t c trace_emit)
  next
    case (Some error)
    then show ?thesis
      by (intro exI [where x = c] exI [where x = "[LogError error, Rimraf dp, Rimraf ep]"])
         (simp add: t c trace_emit trace_onRequestError)
  qed
qed

lemma split_middle:
  assumes "a @ c @ l = pre @ m # post" and "m \<notin> set a" and "m \<notin> set l"
  shows "\<exists>pre2 post2. c = pre2 @ m # post2 \<and> pre = a @ pre2"
  using assms
proof (induction a arbitrary: pre)
  case Nil
  then obtain us where "(c = pre @ us \<and> us @ l = m # post) \<or> (c @ us = pre \<and> l = us @ m # post)"
    by (auto simp: append_eq_append_conv2)
  with Nil show ?case
    by (cases us) auto
next
  case (Cons x a)
  then obtain pre' where "pre = x # pre'" and "a @ c @ l = pre' @ m # post"
    by (cases pre) auto
  with Cons show ?case by auto
qed

text \<open>
  C3. When extraction succeeds and no binary is at the expected path, the attempt is
  to fail with the error "No code-server binary in extracted archive" before the swap.
  The code does not: line 114 negates the promise of \<open>pfs.exists\<close>, not its value, so the
  error is never thrown. On such a host the running executable is unlinked, the move of
  the missing binary fails, and it is the error of the move that reaches the handler.
  The two temporary paths are removed at the end.
\<close>

theorem missing_binary_reaches_swap:
  "exists_r host_without_binary
       ''/tmp/code-server/9.9.9/code-server9.9.9-linux-x86_64/code-server'' = Resolved False
   \<and> doDownloadUpdate host_without_binary release_999 idle_service =
     (Resolved (),
      \<lparr>state = State_Idle Archive (Some ''ENOENT: no such file or directory''),
       trace =
         [Exec ''ldd --version'', Mkdirp ''/tmp/code-server'',
          Request ''https://github.com/cdr/code-server/releases/download/9.9.9/code-server9.9.9-linux-x86_64.tar.gz'',
          WriteFile ''/tmp/code-server/9.9.9-archive'' (Gunzip ''archive''),
          Extract ''/tmp/code-server/9.9.9-archive'' ''/tmp/code-server/9.9.9'',
          Exists ''/tmp/code-server/9.9.9/code-server9.9.9-linux-x86_64/code-server'',
          Unlink ''/usr/local/bin/code-server'',
          Move ''/tmp/code-server/9.9.9/code-server9.9.9-linux-x86_64/code-server''
               ''/usr/local/bin/code-server'',
          LogError (new_Error ''ENOENT: no such file or directory''),
          Rimraf ''/tmp/code-server/9.9.9-archive'',
          Rimraf ''/tmp/code-server/9.9.9'']\<rparr>)"
  by (simp add: run_defs host_without_binary_def linux_host_def release_999_def idle_service_def)

text \<open>
  C4. Wherever a download attempt moves a file, the target of the move is the path of
  the running executable, and the call made just before the move is the unlink of that
  path, which succeeded: the binary is never moved onto the path before the path has
  been unlinked.
\<close>

theorem swap_unlinks_before_move:
  assumes run: "trace (snd (doDownloadUpdate e upd s)) = trace s @ pre @ Move src dst # post"
  shows "dst = argv0 e \<and> (\<exists>pre'. pre = pre' @ [Unlink (argv0 e)])
         \<and> unlink_r e (argv0 e) = Resolved ()"
proof -
  obtain rn s1 a where b: "buildReleaseName e (version upd) (setState (State_Updating upd) s) = (Resolved rn, s1)"
    and a: "trace s1 = trace s @ a" and na: "Move src dst \<notin> set a"
    using buildReleaseName_no_move [of e "version upd" "setState (State_Updating upd) s" src dst]
    by (auto simp: trace_setState)
  from finish_shape [of e upd _ rn _ _ _ s1 _ _ src dst] obtain c l
    where c: "trace (snd (tryDownload e upd (os_platform e) rn
                (''https://github.com/cdr/code-server/releases/download/''
                 @ version upd @ ''/'' @ rn
                 @ ''.'' @ (if os_platform e = ''darwin'' then ''zip'' else ''tar.gz''))
                (path_join [tmpdir e, version upd @ ''-archive''])
                (path_join [tmpdir e, version upd]) s1)) = trace s1 @ c"
      and l: "trace (snd (doDownloadUpdate e upd s)) = trace s1 @ c @ l"
      and nl: "Move src dst \<notin> set l"
    unfolding doDownloadUpdate_unfold [OF b] by blast
  from run l a have "a @ c @ l = pre @ Move src dst # post"
    by simp
  from split_middle [OF this na nl] obtain pre2 post2
    where c2: "c = pre2 @ Move src dst # post2" and p: "pre = a @ pre2"
    by blast
  from c c2 have "dst = argv0 e \<and> (\<exists>pre'. pre2 = pre' @ [Unlink (argv0 e)])
         \<and> unlink_r e (argv0 e) = Resolved () \<and> post2 = []"
    by (intro tryDownload_move) (simp only:)
  with p show ?thesis by auto
qed

theorem swap_unlinks_before_move_witness:
  "trace (snd (doDownloadUpdate linux_host release_999 idle_service))
     = trace idle_service
       @ [Exec ''ldd --version'', Mkdirp ''/tmp/code-server'',
          Request ''https://github.com/cdr/code-server/releases/download/9.9.9/code-server9.9.9-linux-x86_64.tar.gz'',
          WriteFile ''/tmp/code-server/9.9.9-archive'' (Gunzip ''archive''),
          Extract ''/tmp/code-server/9.9.9-archive'' ''/tmp/code-server/9.9.9'',
          Exists ''/tmp/code-server/9.9.9/code-server9.9.9-linux-x86_64/code-server'',
          Unlink ''/usr/local/bin/code-server'']
       @ Move ''/tmp/code-server/9.9.9/code-server9.9.9-linux-x86_64/code-server''
              ''/usr/local/bin/code-server''
         # [Rimraf ''/tmp/code-server/9.9.9-archive'', Rimraf ''/tmp/code-server/9.9.9'']
   \<and> ''/usr/local/bin/code-server'' = argv0 linux_host
   \<and> unlink_r linux_host (argv0 linux_host) = Resolved ()"
proof -
  have run: "trace (snd (doDownloadUpdate linux_host release_999 idle_service))
     = trace idle_service
       @ [Exec ''ldd --version'', Mkdirp ''/tmp/code-server'',
          Request ''https://github.com/cdr/code-server/releases/download/9.9.9/code-server9.9.9-linux-x86_64.tar.gz'',
          WriteFile ''/tmp/code-server/9.9.9-archive'' (Gunzip ''archive''),
          Extract ''/tmp/code-server/9.9.9-archive'' ''/tmp/code-server/9.9.9'',
          Exists ''/tmp/code-server/9.9.9/code-server9.9.9-linux-x86_64/code-server'',
          Unlink ''/usr/local/bin/code-server'']
       @ Move ''/tmp/code-server/9.9.9/code-server9.9.9-linux-x86_64/code-server''
              ''/usr/local/bin/code-server''
         # [Rimraf ''/tmp/code-server/9.9.9-archive'', Rimraf ''/tmp/code-server/9.9.9'']"
    by (simp add: run_defs linux_host_def release_999_def idle_service_def)
  from swap_unlinks_before_move [OF run] run show ?thesis
    by (intro conjI) (simp_all only:)
qed

text \<open>
  C8. However a download attempt goes, the last two calls it makes are the removal of
  the archive path \<open><tmpdir>/<version>-archive\<close> and the removal of the extraction path
  \<open><tmpdir>/<version>\<close>.
\<close>

theorem cleanup_always_runs:
  "\<exists>evs. trace (snd (doDownloadUpdate e upd s))
     = trace s @ evs @ [Rimraf (path_join [tmpdir e, version upd @ ''-archive'']),
                        Rimraf (path_join [tmpdir e, version upd])]"
proof -
  obtain rn s1 a where b: "buildReleaseName e (version upd) (setState (State_Updating upd) s) = (Resolved rn, s1)"
    and a: "trace s1 = trace s @ a"
    using buildReleaseName_no_move [of e "version upd" "setState (State_Updating upd) s" "[]" "[]"]
    by (auto simp: trace_setState)
  from finish_shape obtain c l' where
    "trace (snd (doDownloadUpdate e upd s))
       = trace s1 @ c @ l' @ [Rimraf (path_join [tmpdir e, version upd @ ''-archive'']),
                              Rimraf (path_join [tmpdir e, version upd])]"
    unfolding doDownloadUpdate_unfold [OF b] by blast
  then have "trace (snd (doDownloadUpdate e upd s))
       = trace s @ (a @ c @ l') @ [Rimraf (path_join [tmpdir e, version upd @ ''-archive'']),
                                   Rimraf (path_join [tmpdir e, version upd])]"
    by (simp only: a append_assoc)
  then show ?thesis by (rule exI [where x = "a @ c @ l'"])
qed

theorem cleanup_always_runs_witness:
  "(\<exists>evs. trace (snd (doDownloadUpdate
        (linux_host\<lparr>request_r := (\<lambda>u. Rejected (new_Error ''socket hang up''))\<rparr>)
        release_999 idle_service))
      = trace idle_service @ evs
        @ [Rimraf (path_join [tmpdir linux_host, ''9.9.9'' @ ''-archive'']),
           Rimraf (path_join [tmpdir linux_host, ''9.9.9''])])
   \<and> path_join [tmpdir linux_host, ''9.9.9'' @ ''-archive''] = ''/tmp/code-server/9.9.9-archive''
   \<and> path_join [tmpdir linux_host, ''9.9.9''] = ''/tmp/code-server/9.9.9''"
proof -
  have "path_join [tmpdir linux_host, ''9.9.9'' @ ''-archive''] = ''/tmp/code-server/9.9.9-archive''"
    and "path_join [tmpdir linux_host, ''9.9.9''] = ''/tmp/code-server/9.9.9''"
    by (simp_all add: path_join_def path_normalize_def normalizeString_def normalizeStep_def
          linux_host_def)
  with cleanup_always_runs
         [of "linux_host\<lparr>request_r := (\<lambda>u. Rejected (new_Error ''socket hang up''))\<rparr>"
             release_999 idle_service]
  show ?thesis
    by (simp add: release_999_def)
qed

subsection \<open>Temporary paths\<close>

lemma splitSlash_nonempty: "splitSlash x \<noteq> []"
  by (induction x) (auto split: list.split)

lemma splitSlash_noslash: "CHR ''/'' \<notin> set w \<Longrightarrow> splitSlash w = [w]"
  by (induction w) auto

lemma splitSlash_append_noslash:
  "CHR ''/'' \<notin> set w \<Longrightarrow>
   splitSlash (x @ w) = butlast (splitSlash x) @ [last (splitSlash x) @ w]"
proof (induction x)
  case Nil
  then show ?case by (simp add: splitSlash_noslash)
next
  case (Cons c cs)
  then show ?case
    using splitSlash_nonempty [of cs] splitSlash_nonempty [of "cs @ w"]
    by (auto split: list.split simp: butlast_append)
qed

lemma splitSlash_slash: "splitSlash (x @ CHR ''/'' # y) = splitSlash x @ splitSlash y"
proof (induction x)
  case Nil
  show ?case by simp
next
  case (Cons c cs)
  then show ?case
    using splitSlash_nonempty [of cs]
    by (auto split: list.split)
qed

lemma joinSlash_snoc:
  "joinSlash (S @ [x]) = (if S = [] then x else joinSlash S @ ''/'' @ x)"
  by (induction S rule: joinSlash.induct) auto

lemma length_joinSlash_butlast: "length (joinSlash (butlast S)) \<le> length (joinSlash S)"
proof (cases S rule: rev_cases)
  case Nil
  then show ?thesis by simp
next
  case (snoc B x)
  then show ?thesis by (simp add: joinSlash_snoc)
qed

lemma length_normalizeStep:
  "length (joinSlash (normalizeStep b S seg))
     \<le> length (joinSlash S) + (if S = [] then 0 else 1) + length seg"
  using length_joinSlash_butlast [of S]
  by (auto simp: normalizeStep_def joinSlash_snoc)


lemma archive_segment: "normalizeStep b S (seg @ ''-archive'') = S @ [seg @ ''-archive'']"
proof -
  have "length (seg @ ''-archive'') \<ge> 8" by simp
  then have "seg @ ''-archive'' \<noteq> []" "seg @ ''-archive'' \<noteq> ''.''" "seg @ ''-archive'' \<noteq> ''..''"
    by (auto dest: arg_cong [where f = length])
  then show ?thesis by (simp add: normalizeStep_def)
qed

lemma normalizeString_archive:
  "length (normalizeString J b) + 8 \<le> length (normalizeString (J @ ''-archive'') b)"
proof -
  let ?S = "foldl (normalizeStep b) [] (butlast (splitSlash J))"
  let ?s = "last (splitSlash J)"
  have J: "splitSlash J = butlast (splitSlash J) @ [?s]"
    using splitSlash_nonempty [of J] by simp
  have "normalizeString J b = joinSlash (normalizeStep b ?S ?s)"
    unfolding normalizeString_def by (subst J) simp
  moreover have "normalizeString (J @ ''-archive'') b = joinSlash (?S @ [?s @ ''-archive''])"
    unfolding normalizeString_def
    by (subst splitSlash_append_noslash) (simp_all add: archive_segment)
  ultimately show ?thesis
    using length_normalizeStep [of b ?S ?s]
    by (cases "?S = []") (simp_all only: joinSlash_snoc if_True if_False length_append list.size, simp_all)
qed

lemma normalizeString_slash_archive:
  "length (normalizeString t b) + 8 \<le> length (normalizeString (t @ ''/-archive'') b)"
proof -
  have "splitSlash (t @ ''/-archive'') = splitSlash t @ [''-archive'']"
    using splitSlash_slash [of t "''-archive''"] by (simp add: splitSlash_noslash)
  then have "normalizeString (t @ ''/-archive'') b
      = joinSlash (foldl (normalizeStep b) [] (splitSlash t) @ [''-archive''])"
    using archive_segment [of b _ "[]"] by (simp add: normalizeString_def)
  then show ?thesis
    by (simp add: joinSlash_snoc normalizeString_def)
qed

lemma length_path_normalize_upper:
  "J \<noteq> [] \<Longrightarrow> length (path_normalize J)
     \<le> max 2 (length (normalizeString J (hd J \<noteq> CHR ''/'')) + 1 + (if hd J = CHR ''/'' then 1 else 0))"
  by (auto simp: path_normalize_def Let_def max_def)

lemma length_path_normalize_lower:
  "J \<noteq> [] \<Longrightarrow> normalizeString J (hd J \<noteq> CHR ''/'') \<noteq> [] \<Longrightarrow>
   length (normalizeString J (hd J \<noteq> CHR ''/'')) + (if hd J = CHR ''/'' then 1 else 0)
     \<le> length (path_normalize J)"
  by (simp add: path_normalize_def Let_def)

lemma path_normalize_longer:
  assumes "J \<noteq> []" and "hd J' = hd J" and "J' \<noteq> []"
    and "length (normalizeString J (hd J \<noteq> CHR ''/'')) + 8 \<le> length (normalizeString J' (hd J \<noteq> CHR ''/''))"
  shows "length (path_normalize J) < length (path_normalize J')"
proof -
  from assms have "normalizeString J' (hd J' \<noteq> CHR ''/'') \<noteq> []" by auto
  from length_path_normalize_lower [OF \<open>J' \<noteq> []\<close> this] length_path_normalize_upper [OF \<open>J \<noteq> []\<close>] assms
  show ?thesis by (auto split: if_splits)
qed

lemma tryDownload_paths:
  assumes "trace (snd (tryDownload e upd t rn u dp ep s)) = trace s @ c"
  shows "(WriteFile p strm \<in> set c \<longrightarrow> p = dp)
         \<and> (Extract src dst \<in> set c \<longrightarrow> src = dp \<and> dst = ep)"
  using assms
  by (auto simp: tryDownload_def Let_def trace_emit trace_setState
           split: promise.splits if_splits)

lemma buildReleaseName_only_exec:
  "\<exists>rn s1 evs. buildReleaseName e v s = (Resolved rn, s1) \<and> trace s1 = trace s @ evs
      \<and> set evs \<subseteq> {Exec ''ldd --version''}"
  by (simp add: buildReleaseName_value trace_emit)

lemma finish_events:
  "\<exists>c l. trace (snd (tryDownload e upd t rn u dp' ep' s1)) = trace s1 @ c
     \<and> trace (emit (Rimraf ep) (emit (Rimraf dp)
            (case tryDownload e upd t rn u dp' ep' s1 of
               (None, s') \<Rightarrow> s'
             | (Some error, s') \<Rightarrow> onRequestError error True s')))
         = trace s1 @ c @ l
     \<and> WriteFile p strm \<notin> set l \<and> Extract src dst \<notin> set l"
proof -
  obtain r s2 where t: "tryDownload e upd t rn u dp' ep' s1 = (r, s2)"
    by (cases "tryDownload e upd t rn u dp' ep' s1")
  obtain c where c: "trace s2 = trace s1 @ c"
    using tryDownload_extends [of e upd t rn u dp' ep' s1] t by auto
  show ?thesis
  proof (cases r)
    case None
    then show ?thesis
      by (intro exI [where x = c] exI [where x = "[Rimraf dp, Rimraf ep]"])
         (simp add: t c trace_emit)
  next
    case (Some error)
    then show ?thesis
      by (intro exI [where x = c] exI [where x = "[LogError error, Rimraf dp, Rimraf ep]"])
         (simp add: t c trace_emit trace_onRequestError)
  qed
qed

text \<open>
  The file written and the archive extracted in an attempt are at the archive path, and
  the extraction goes to the extraction path.
\<close>

lemma doDownloadUpdate_paths:
  assumes run: "trace (snd (doDownloadUpdate e upd s)) = trace s @ evs"
  shows "(WriteFile p strm \<in> set evs \<longrightarrow> p = path_join [tmpdir e, version upd @ ''-archive''])
       \<and> (Extract src dst \<in> set evs \<longrightarrow>
            src = path_join [tmpdir e, version upd @ ''-archive'']
            \<and> dst = path_join [tmpdir e, version upd])"
proof -
  obtain rn s1 a where b: "buildReleaseName e (version upd) (setState (State_Updating upd) s) = (Resolved rn, s1)"
    and a: "trace s1 = trace s @ a" and na: "set a \<subseteq> {Exec ''ldd --version''}"
    using buildReleaseName_only_exec [of e "version upd" "setState (State_Updating upd) s"]
    by (auto simp: trace_setState)
  from finish_events [of e upd _ rn _ _ _ s1 _ _ p strm src dst] obtain c l
    where c: "trace (snd (tryDownload e upd (os_platform e) rn
                (''https://github.com/cdr/code-server/releases/download/''
                 @ version upd @ ''/'' @ rn
                 @ ''.'' @ (if os_platform e = ''darwin'' then ''zip'' else ''tar.gz''))
                (path_join [tmpdir e, version upd @ ''-archive''])
                (path_join [tmpdir e, version upd]) s1)) = trace s1 @ c"
      and l: "trace (snd (doDownloadUpdate e upd s)) = trace s1 @ c @ l"
      and nl: "WriteFile p strm \<notin> set l" "Extract src dst \<notin> set l"
    unfolding doDownloadUpdate_unfold [OF b] by blast
  from run l a have evs: "evs = a @ c @ l"
    by simp
  from tryDownload_paths [OF c, of p strm src dst] na nl show ?thesis
    unfolding evs by auto
qed

text \<open>
  C10. For every temporary directory and every version string, the archive path and the
  extraction path of an attempt are different paths: the first is strictly longer. In
  every attempt the file service writes to the first and the extractor unpacks into the
  second, so the write of the archive never targets the extraction destination.
\<close>

theorem archive_paths_distinct:
  "path_join [tmpdir e, version upd @ ''-archive''] \<noteq> path_join [tmpdir e, version upd]
   \<and> (\<forall>evs p strm src dst.
         trace (snd (doDownloadUpdate e upd s)) = trace s @ evs
         \<and> WriteFile p strm \<in> set evs \<and> Extract src dst \<in> set evs
         \<longrightarrow> p = path_join [tmpdir e, version upd @ ''-archive'']
             \<and> dst = path_join [tmpdir e, version upd]
             \<and> p \<noteq> dst)"
proof -
  have d: "path_join [tmpdir e, version upd @ ''-archive''] \<noteq> path_join [tmpdir e, version upd]"
  proof -
    let ?t = "tmpdir e" and ?v = "version upd"
    have "length (path_join [?t, ?v]) < length (path_join [?t, ?v @ ''-archive''])"
    proof (cases "?t = []")
      case t: True
      show ?thesis
      proof (cases "?v = []")
        case True
        with t show ?thesis
          by (simp add: path_join_def path_normalize_def normalizeString_def normalizeStep_def)
      next
        case False
        with t path_normalize_longer [of ?v "?v @ ''-archive''"] normalizeString_archive [of ?v]
        show ?thesis by (simp add: path_join_def)
      qed
    next
      case t: False
      show ?thesis
      proof (cases "?v = []")
        case True
        with t path_normalize_longer [of ?t "?t @ ''/-archive''"] normalizeString_slash_archive [of ?t]
        show ?thesis by (simp add: path_join_def)
      next
        case False
        with t path_normalize_longer [of "?t @ ''/'' @ ?v" "(?t @ ''/'' @ ?v) @ ''-archive''"]
          normalizeString_archive [of "?t @ ''/'' @ ?v"]
        show ?thesis by (simp add: path_join_def)
      qed
    qed
    then show ?thesis by auto
  qed
  show ?thesis
  proof (intro conjI allI impI)
    show "path_join [tmpdir e, version upd @ ''-archive''] \<noteq> path_join [tmpdir e, version upd]"
      by (rule d)
  next
    fix evs p strm src dst
    assume h: "trace (snd (doDownloadUpdate e upd s)) = trace s @ evs
         \<and> WriteFile p strm \<in> set evs \<and> Extract src dst \<in> set evs"
    then have run: "trace (snd (doDownloadUpdate e upd s)) = trace s @ evs"
      and w: "WriteFile p strm \<in> set evs" and x: "Extract src dst \<in> set evs"
      by simp_all
    from doDownloadUpdate_paths [OF run, of p strm src dst] w x
    have p: "p = path_join [tmpdir e, version upd @ ''-archive'']"
      and dst: "dst = path_join [tmpdir e, version upd]"
      by simp_all
    show "p = path_join [tmpdir e, version upd @ ''-archive'']" by (rule p)
    show "dst = path_join [tmpdir e, version upd]" by (rule dst)
    show "p \<noteq> dst" unfolding p dst by (rule d)
  qed
qed

theorem archive_paths_distinct_witness:
  "trace (snd (doDownloadUpdate linux_host release_999 idle_service))
     = trace idle_service @ successful_attempt_calls
   \<and> WriteFile ''/tmp/code-server/9.9.9-archive'' (Gunzip ''archive'')
       \<in> set successful_attempt_calls
   \<and> Extract ''/tmp/code-server/9.9.9-archive'' ''/tmp/code-server/9.9.9''
       \<in> set successful_attempt_calls
   \<and> ''/tmp/code-server/9.9.9-archive''
       = path_join [tmpdir linux_host, version release_999 @ ''-archive'']
   \<and> ''/tmp/code-server/9.9.9'' = path_join [tmpdir linux_host, version release_999]
   \<and> path_join [tmpdir linux_host, version release_999 @ ''-archive'']
       \<noteq> path_join [tmpdir linux_host, version release_999]
   \<and> path_join [tmpdir (linux_host\<lparr>tmpdir := ''/tmp/x''\<rparr>), version \<lparr>version = ''a/..'', productVersion = ''a/..''\<rparr> @ ''-archive'']
     = ''/tmp/x/a/..-archive''
   \<and> path_join [tmpdir (linux_host\<lparr>tmpdir := ''/tmp/x''\<rparr>), version \<lparr>version = ''a/..'', productVersion = ''a/..''\<rparr>]
     = ''/tmp/x''
   \<and> path_join [tmpdir (linux_host\<lparr>tmpdir := ''/tmp/x''\<rparr>), version \<lparr>version = ''a/..'', productVersion = ''a/..''\<rparr> @ ''-archive'']
     \<noteq> path_join [tmpdir (linux_host\<lparr>tmpdir := ''/tmp/x''\<rparr>), version \<lparr>version = ''a/..'', productVersion = ''a/..''\<rparr>]"
proof -
  have run: "trace (snd (doDownloadUpdate linux_host release_999 idle_service))
     = trace idle_service @ successful_attempt_calls"
    by (simp add: run_defs linux_host_def release_999_def idle_service_def
          successful_attempt_calls_def)
  have w: "WriteFile ''/tmp/code-server/9.9.9-archive'' (Gunzip ''archive'')
             \<in> set successful_attempt_calls"
    and x: "Extract ''/tmp/code-server/9.9.9-archive'' ''/tmp/code-server/9.9.9''
             \<in> set successful_attempt_calls"
    by (simp_all add: successful_attempt_calls_def)
  note inst = archive_paths_distinct [of linux_host release_999 idle_service]
  note paths = inst [THEN conjunct2, rule_format, OF conjI [OF run conjI [OF w x]]]
  have dots: "path_join [tmpdir (linux_host\<lparr>tmpdir := ''/tmp/x''\<rparr>), version \<lparr>version = ''a/..'', productVersion = ''a/..''\<rparr> @ ''-archive'']
     = ''/tmp/x/a/..-archive''"
    "path_join [tmpdir (linux_host\<lparr>tmpdir := ''/tmp/x''\<rparr>), version \<lparr>version = ''a/..'', productVersion = ''a/..''\<rparr>]
     = ''/tmp/x''"
    by (simp_all add: path_join_def path_normalize_def normalizeString_def normalizeStep_def)
  from run w x paths [THEN conjunct1] paths [THEN conjunct2, THEN conjunct1] inst [THEN conjunct1]
    dots
    archive_paths_distinct
      [of "linux_host\<lparr>tmpdir := ''/tmp/x''\<rparr>" "\<lparr>version = ''a/..'', productVersion = ''a/..''\<rparr>",
       THEN conjunct1]
  show ?thesis by - (intro conjI, assumption+)
qed

end
